theory Spec2Isabelle
  imports Main "HOL-Library.AList"
begin

section \<open>Booking form: dates, validation and the check-out effect\<close>

text \<open>
  A JavaScript \<^verbatim>\<open>Date\<close> is the number of milliseconds since the epoch. The two
  date-fns functions the form uses are \<^verbatim>\<open>isBefore(a, b)\<close>, which compares the
  two instants, and \<^verbatim>\<open>addDays(d, n)\<close>, which moves \<^verbatim>\<open>d\<close> by \<^verbatim>\<open>n\<close> calendar days;
  a calendar day is taken as 24 hours (no daylight-saving shift).
\<close>

type_synonym date = int

definition isBefore :: "date \<Rightarrow> date \<Rightarrow> bool" where
  "isBefore a b = (a < b)"

definition addDays :: "date \<Rightarrow> int \<Rightarrow> date" where
  "addDays d n = d + n * 86400000"

text \<open>
  \<^verbatim>\<open>formData\<close> of \<^verbatim>\<open>BookingForm\<close>; an absent date is \<open>None\<close>.
\<close>

record formData =
  checkIn :: "date option"
  checkOut :: "date option"
  roomType :: string
  adults :: int
  children :: int

text \<open>
  \<^verbatim>\<open>BookingFormErrors\<close>: one optional message per field.
\<close>

record BookingFormErrors =
  err_checkIn :: "string option"
  err_checkOut :: "string option"
  err_roomType :: "string option"
  err_adults :: "string option"

definition noErrors :: BookingFormErrors where
  "noErrors = \<lparr>err_checkIn = None, err_checkOut = None, err_roomType = None, err_adults = None\<rparr>"

text \<open>
  \<^verbatim>\<open>validateForm\<close>: the four checks run in the source's order, each writing its
  field of \<^verbatim>\<open>newErrors\<close>; the result is the error object and whether it has no key.
\<close>

definition validateForm :: "formData \<Rightarrow> BookingFormErrors \<times> bool" where
  "validateForm fd =
    (let e1 = (if checkIn fd = None
               then noErrors\<lparr>err_checkIn := Some ''Check-in date is required''\<rparr>
               else noErrors);
         e2 = (if checkOut fd = None
               then e1\<lparr>err_checkOut := Some ''Check-out date is required''\<rparr>
               else e1);
         e3 = (case (checkIn fd, checkOut fd) of
                 (Some ci, Some co) \<Rightarrow>
                   if isBefore co ci
                   then e2\<lparr>err_checkOut := Some ''Check-out date must be after check-in date''\<rparr>
                   else e2
               | _ \<Rightarrow> e2);
         e4 = (if roomType fd = [] \<or> roomType fd = ''select''
               then e3\<lparr>err_roomType := Some ''Please select a room type''\<rparr>
               else e3);
         e5 = (if adults fd < 1
               then e4\<lparr>err_adults := Some ''At least one adult is required''\<rparr>
               else e4)
     in (e5, e5 = noErrors))"

text \<open>
  The effect that depends on \<^verbatim>\<open>formData.checkIn\<close>: when both dates are set and
  check-out is before check-in, check-out becomes the day after check-in.
\<close>

definition checkOutEffect :: "formData \<Rightarrow> formData" where
  "checkOutEffect fd =
    (case (checkIn fd, checkOut fd) of
       (Some ci, Some co) \<Rightarrow>
         if isBefore co ci then fd\<lparr>checkOut := Some (addDays ci 1)\<rparr> else fd
     | _ \<Rightarrow> fd)"

text \<open>
  \<^verbatim>\<open>onSelect\<close> of the check-in calendar: a picked date replaces
  \<^verbatim>\<open>checkIn\<close>; no date leaves the form as it is.
\<close>

definition onSelectCheckIn :: "date option \<Rightarrow> formData \<Rightarrow> formData" where
  "onSelectCheckIn picked fd =
    (case picked of Some d \<Rightarrow> fd\<lparr>checkIn := Some d\<rparr> | None \<Rightarrow> fd)"

text \<open>
  \<^verbatim>\<open>onSelect\<close> of the check-out calendar. The effect above does not depend on
  \<^verbatim>\<open>checkOut\<close>, so it does not run after this pick.
\<close>

definition onSelectCheckOut :: "date option \<Rightarrow> formData \<Rightarrow> formData" where
  "onSelectCheckOut picked fd =
    (case picked of Some d \<Rightarrow> fd\<lparr>checkOut := Some d\<rparr> | None \<Rightarrow> fd)"

text \<open>
  A check-in pick as the form sees it: the state update, then the effect that the
  change of \<^verbatim>\<open>checkIn\<close> triggers.
\<close>

definition pickCheckIn :: "date \<Rightarrow> formData \<Rightarrow> formData" where
  "pickCheckIn d fd = checkOutEffect (onSelectCheckIn (Some d) fd)"

text \<open>
  The calendar of the check-out field disables a day \<^verbatim>\<open>date\<close> exactly when this
  holds; \<^verbatim>\<open>isSameDay\<close> compares the calendar days of the two instants, and
  \<^verbatim>\<open>today\<close> stands for \<^verbatim>\<open>new Date()\<close>.
\<close>

definition isSameDay :: "date \<Rightarrow> date \<Rightarrow> bool" where
  "isSameDay a b = (a div 86400000 = b div 86400000)"

definition checkOutDisabled :: "date \<Rightarrow> formData \<Rightarrow> date \<Rightarrow> bool" where
  "checkOutDisabled today fd d =
    (case checkIn fd of
       Some ci \<Rightarrow> isBefore d ci \<and> \<not> isSameDay d ci
     | None \<Rightarrow> isBefore d (addDays today 1))"

text \<open>A form with check-in at instant 86400000 and check-out one day later.\<close>

definition dayOneForm :: formData where
  "dayOneForm = \<lparr>checkIn = Some 86400000, checkOut = Some 172800000,
     roomType = ''deluxe'', adults = 2, children = 0\<rparr>"

section \<open>Values shared by the components\<close>

text \<open>
  A parsed JSON value. An object is its list of key-value pairs; a property a record
  lacks (\<^verbatim>\<open>undefined\<close>) is \<open>None\<close> at the place that reads it.
\<close>

datatype json =
    JNull
  | JBool bool
  | JNum int
  | JStr string
  | JArr "json list"
  | JObj "(string \<times> json) list"

text \<open>JavaScript truthiness, \<^verbatim>\<open>Array.isArray\<close>, \<^verbatim>\<open>typeof v === 'object'\<close> and \<^verbatim>\<open>k in v\<close>.\<close>

fun truthy :: "json \<Rightarrow> bool" where
  "truthy JNull = False"
| "truthy (JBool b) = b"
| "truthy (JNum n) = (n \<noteq> 0)"
| "truthy (JStr s) = (s \<noteq> [])"
| "truthy (JArr xs) = True"
| "truthy (JObj kvs) = True"

fun isArray :: "json \<Rightarrow> bool" where
  "isArray (JArr xs) = True"
| "isArray v = False"

fun typeofObject :: "json \<Rightarrow> bool" where
  "typeofObject JNull = True"
| "typeofObject (JArr xs) = True"
| "typeofObject (JObj kvs) = True"
| "typeofObject v = False"

fun hasKey :: "string \<Rightarrow> json \<Rightarrow> bool" where
  "hasKey k (JObj kvs) = (k \<in> set (map fst kvs))"
| "hasKey k v = False"

text \<open>
  \<^verbatim>\<open>v || k\<close> for an optional string \<^verbatim>\<open>v\<close> and a string \<^verbatim>\<open>k\<close>, which is also
  \<^verbatim>\<open>if (v) return v;\<close> followed by the code that yields \<^verbatim>\<open>k\<close>: an absent or
  empty string is falsy.
\<close>

definition orElse :: "string option \<Rightarrow> string \<Rightarrow> string" where
  "orElse v k = (case v of Some u \<Rightarrow> if u \<noteq> [] then u else k | None \<Rightarrow> k)"

text \<open>
  A number in a template literal, for integers: decimal digits, with a minus sign
  below zero.
\<close>

definition digitChar :: "nat \<Rightarrow> char" where
  "digitChar n = char_of (48 + n)"

fun natDigits :: "nat \<Rightarrow> string" where
  "natDigits n = (if n < 10 then [digitChar n] else natDigits (n div 10) @ [digitChar (n mod 10)])"

definition numberToString :: "int \<Rightarrow> string" where
  "numberToString i = (if i < 0 then CHR ''-'' # natDigits (nat (- i)) else natDigits (nat i))"

text \<open>
  \<^verbatim>\<open>s.split(c)\<close> for a one-character separator, \<^verbatim>\<open>xs.join(sep)\<close>,
  \<^verbatim>\<open>s.startsWith(p)\<close>, and \<^verbatim>\<open>toUpperCase\<close> on the letters a to z.
\<close>

fun split :: "char \<Rightarrow> string \<Rightarrow> string list" where
  "split c [] = [[]]"
| "split c (x # xs) =
    (if x = c then [] # split c xs
     else (case split c xs of [] \<Rightarrow> [[x]] | w # ws \<Rightarrow> (x # w) # ws))"

fun join :: "string \<Rightarrow> string list \<Rightarrow> string" where
  "join sep [] = []"
| "join sep [w] = w"
| "join sep (w # ws) = w @ sep @ join sep ws"

definition startsWith :: "string \<Rightarrow> string \<Rightarrow> bool" where
  "startsWith s p = (take (length p) s = p)"

definition toUpperCase :: "char \<Rightarrow> char" where
  "toUpperCase c =
    (if 97 \<le> (of_char c :: nat) \<and> (of_char c :: nat) \<le> 122
     then char_of ((of_char c :: nat) - 32) else c)"

section \<open>Room types section: gallery normalization and image URL\<close>

text \<open>
  \<^verbatim>\<open>Room\<close> of the room types section, with the fields its functions read. The
  custom fields \<^verbatim>\<open>acf\<close> are absent (or falsy) at \<open>None\<close>; the gallery is kept as
  the JSON value the API sent, since the code tests its shape at run time.
\<close>

record image =
  source_url :: string

record media_sizes =
  large :: "image option"
  medium_large :: "image option"
  medium :: "image option"
  thumbnail :: "image option"

record media_details_t =
  sizes :: "media_sizes option"

record featuredmedia = image +
  media_details :: "media_details_t option"

record embedded_t =
  wp_featuredmedia :: "featuredmedia list option"

record RoomACFFields =
  gallery :: "json option"
  acf_rest :: "(string \<times> json) list"

record Room =
  acf :: "RoomACFFields option"
  better_featured_image :: "image option"
  embedded :: "embedded_t option"

text \<open>
  The callback \<^verbatim>\<open>getNormalizedRooms\<close> maps over the rooms: a room without custom
  fields is returned as it is; otherwise \<^verbatim>\<open>gallery\<close> starts empty, takes the
  elements of an array, or the value itself when it is a truthy object with a
  \<^verbatim>\<open>url\<close> key, and replaces the gallery of a copy of the custom fields.
\<close>

definition normalizeRoom :: "Room \<Rightarrow> Room" where
  "normalizeRoom room =
    (case acf room of
       None \<Rightarrow> room
     | Some a \<Rightarrow>
         (let gallery0 = [];
              gallery1 =
                (case gallery a of
                   None \<Rightarrow> gallery0
                 | Some g \<Rightarrow>
                     if isArray g then (case g of JArr items \<Rightarrow> gallery0 @ items | _ \<Rightarrow> gallery0)
                     else if truthy g \<and> typeofObject g \<and> hasKey ''url'' g then gallery0 @ [g]
                     else gallery0)
          in room\<lparr>acf := Some (a\<lparr>gallery := Some (JArr gallery1)\<rparr>)\<rparr>))"

text \<open>
  \<^verbatim>\<open>getNormalizedRooms\<close>: \<open>None\<close> is a \<^verbatim>\<open>roomList\<close> that is falsy or not an
  array.
\<close>

definition getNormalizedRooms :: "Room list option \<Rightarrow> Room list" where
  "getNormalizedRooms roomList =
    (case roomList of None \<Rightarrow> [] | Some rooms \<Rightarrow> map normalizeRoom rooms)"

text \<open>\<^verbatim>\<open>x?.source_url\<close>.\<close>

definition optSourceUrl :: "image option \<Rightarrow> string option" where
  "optSourceUrl x = map_option source_url x"

text \<open>\<^verbatim>\<open>room._embedded?.['wp:featuredmedia']?.[0]\<close>.\<close>

definition featuredMedia :: "Room \<Rightarrow> featuredmedia option" where
  "featuredMedia room =
    (case embedded room of
       None \<Rightarrow> None
     | Some e \<Rightarrow>
         (case wp_featuredmedia e of
            None \<Rightarrow> None
          | Some ms \<Rightarrow> (case ms of [] \<Rightarrow> None | m # rest \<Rightarrow> Some m)))"

definition defaultImage :: string where
  "defaultImage = ''/images/rooms/default-room.png''"

text \<open>\<^verbatim>\<open>getImageUrl\<close>, return by return.\<close>

definition getImageUrl :: "Room \<Rightarrow> string" where
  "getImageUrl room =
    orElse (optSourceUrl (better_featured_image room))
      (case featuredMedia room of
         None \<Rightarrow> defaultImage
       | Some fm \<Rightarrow>
           (let fallback = orElse (Some (source_url fm)) defaultImage in
            case (case media_details fm of None \<Rightarrow> None | Some md \<Rightarrow> sizes md) of
              None \<Rightarrow> fallback
            | Some sz \<Rightarrow>
                orElse (optSourceUrl (large sz))
                  (orElse (optSourceUrl (medium_large sz))
                    (orElse (optSourceUrl (medium sz))
                      (orElse (optSourceUrl (thumbnail sz)) fallback)))))"

text \<open>
  The preference order in the specification's words: the candidates in order, each
  present or not, and the first one that is present and non-empty, else the default.
\<close>

definition imageCandidates :: "Room \<Rightarrow> string option list" where
  "imageCandidates room =
    (let fm = featuredMedia room;
         sz = (case fm of None \<Rightarrow> None
               | Some m \<Rightarrow> (case media_details m of None \<Rightarrow> None | Some md \<Rightarrow> sizes md));
         variant = (\<lambda>sel. case sz of None \<Rightarrow> None | Some s \<Rightarrow> optSourceUrl (sel s))
     in [optSourceUrl (better_featured_image room),
         variant large, variant medium_large, variant medium, variant thumbnail,
         map_option source_url fm])"

fun firstAvailable :: "string option list \<Rightarrow> string \<Rightarrow> string" where
  "firstAvailable [] d = d"
| "firstAvailable (None # cs) d = firstAvailable cs d"
| "firstAvailable (Some u # cs) d = (if u \<noteq> [] then u else firstAvailable cs d)"

text \<open>Sample rooms.\<close>

definition bareRoom :: Room where
  "bareRoom = \<lparr>acf = None, better_featured_image = None, embedded = None\<rparr>"

definition mediumOnlyRoom :: Room where
  "mediumOnlyRoom = \<lparr>acf = None, better_featured_image = Some \<lparr>source_url = []\<rparr>,
     embedded = Some \<lparr>wp_featuredmedia = Some
       [\<lparr>source_url = ''https://cms.example/full.jpg'',
         media_details = Some \<lparr>sizes = Some
           \<lparr>large = None, medium_large = Some \<lparr>source_url = []\<rparr>,
            medium = Some \<lparr>source_url = ''https://cms.example/medium.jpg''\<rparr>,
            thumbnail = Some \<lparr>source_url = ''https://cms.example/thumb.jpg''\<rparr>\<rparr>\<rparr>\<rparr>]\<rparr>\<rparr>"

definition roomWithGallery :: "json option \<Rightarrow> Room" where
  "roomWithGallery g = \<lparr>acf = Some \<lparr>gallery = g, acf_rest = [(''size'', JStr ''40 sqm'')]\<rparr>,
     better_featured_image = None, embedded = None\<rparr>"

section \<open>Booking form: room name and rate\<close>

text \<open>
  \<^verbatim>\<open>WPRoom\<close> of the booking form, with the fields the room name and the rate read.
  \<^verbatim>\<open>id\<close> is \<open>room_id\<close> here; the record's \<^verbatim>\<open>acf\<close> is \<open>wp_acf\<close>.
\<close>

record rendered_t =
  rendered :: string

record WPRoomACF =
  price_per_night :: "int option"

record WPRoom =
  room_id :: int
  slug :: string
  title :: "rendered_t option"
  featured_title :: "string option"
  room_rates :: "string option"
  wp_acf :: "WPRoomACF option"

text \<open>\<^verbatim>\<open>w.charAt(0).toUpperCase() + w.slice(1)\<close>.\<close>

definition capitalize :: "string \<Rightarrow> string" where
  "capitalize w = (case w of [] \<Rightarrow> [] | c # cs \<Rightarrow> toUpperCase c # cs)"

text \<open>\<^verbatim>\<open>roomName\<close> of the select item.\<close>

definition roomName :: "WPRoom \<Rightarrow> string" where
  "roomName room =
    orElse (map_option rendered (title room))
      (orElse (featured_title room)
        (orElse (Some (if slug room \<noteq> []
                       then join '' '' (map capitalize (split CHR ''-'' (slug room)))
                       else []))
          (''Room '' @ numberToString (room_id room))))"

text \<open>\<^verbatim>\<open>rateValue\<close> and \<^verbatim>\<open>rate\<close> of the select item; a price of 0 is falsy.\<close>

definition rateValue :: "WPRoom \<Rightarrow> string" where
  "rateValue room =
    orElse (room_rates room)
      (case (case wp_acf room of None \<Rightarrow> None | Some a \<Rightarrow> price_per_night a) of
         Some p \<Rightarrow> if p \<noteq> 0 then ''K'' @ numberToString p else ''K0''
       | None \<Rightarrow> ''K0'')"

definition rate :: "WPRoom \<Rightarrow> string" where
  "rate room =
    (if startsWith (rateValue room) ''K'' then rateValue room else ''K'' @ rateValue room)"

text \<open>Sample rooms of the booking form.\<close>

definition namelessRoom :: WPRoom where
  "namelessRoom = \<lparr>room_id = 17, slug = [], title = Some \<lparr>rendered = []\<rparr>,
     featured_title = None, room_rates = None, wp_acf = None\<rparr>"

definition slugRoom :: WPRoom where
  "slugRoom = \<lparr>room_id = 42, slug = ''deluxe-sea-view'', title = None,
     featured_title = Some [], room_rates = Some ''K350'',
     wp_acf = Some \<lparr>price_per_night = Some 200\<rparr>\<rparr>"

section \<open>Configuration: the WordPress base URL\<close>

text \<open>
  The part of \<^verbatim>\<open>process.env\<close> the code reads; an unset variable is \<open>None\<close>.
\<close>

record env =
  NEXT_PUBLIC_WORDPRESS_URL :: "string option"
  NEXT_PUBLIC_WORDPRESS_API_URL :: "string option"
  NODE_ENV :: "string option"

text \<open>\<^verbatim>\<open>a || b\<close> for two optional strings: \<^verbatim>\<open>a\<close> when it is truthy, else \<^verbatim>\<open>b\<close>.\<close>

definition orUndefined :: "string option \<Rightarrow> string option \<Rightarrow> string option" where
  "orUndefined a b = (case a of Some u \<Rightarrow> if u \<noteq> [] then a else b | None \<Rightarrow> b)"

text \<open>A thrown \<^verbatim>\<open>Error\<close> with its message, and a line written to the console.\<close>

datatype js_error = Error string

datatype console = ConsoleWarn string | ConsoleLog string | ConsoleError string

text \<open>
  Evaluation of the top of the \<^verbatim>\<open>wordpress\<close> module: the constant
  \<^verbatim>\<open>WORDPRESS_API_URL\<close> and what is written to the console.
\<close>

definition wordpressModule :: "env \<Rightarrow> js_error + (string \<times> console list)" where
  "wordpressModule e =
    (let WORDPRESS_API_URL =
           orElse (orUndefined (NEXT_PUBLIC_WORDPRESS_URL e) (NEXT_PUBLIC_WORDPRESS_API_URL e)) []
     in Inr (WORDPRESS_API_URL,
          if NODE_ENV e \<noteq> Some ''production''
          then (if WORDPRESS_API_URL = []
                then [ConsoleWarn ''WordPress API URL is not set in environment variables. Please set NEXT_PUBLIC_WORDPRESS_URL'']
                else [ConsoleLog (''Using WordPress API URL: '' @ WORDPRESS_API_URL)])
          else []))"

text \<open>
  Evaluation of the top of the \<^verbatim>\<open>api\<close> module: the constants
  \<^verbatim>\<open>WORDPRESS_API_URL\<close> and \<^verbatim>\<open>API_BASE_URL\<close> and the console, or the error
  it throws.
\<close>

definition apiModule :: "env \<Rightarrow> js_error + (string option \<times> string \<times> console list)" where
  "apiModule e =
    (let WORDPRESS_API_URL =
           orUndefined (NEXT_PUBLIC_WORDPRESS_URL e) (NEXT_PUBLIC_WORDPRESS_API_URL e);
         unset =
           (if NODE_ENV e \<noteq> Some ''production''
            then Inl (Error ''WordPress API URL is not defined. Please set NEXT_PUBLIC_WORDPRESS_URL or NEXT_PUBLIC_WORDPRESS_API_URL in your environment variables.'')
            else Inr (WORDPRESS_API_URL, [], [ConsoleError ''WordPress API URL is not configured'']))
     in case WORDPRESS_API_URL of
          None \<Rightarrow> unset
        | Some u \<Rightarrow>
            if u = [] then unset
            else Inr (WORDPRESS_API_URL, u @ ''/wp-json/wp/v2'', []))"

text \<open>Sample environments.\<close>

definition unsetDevEnv :: env where
  "unsetDevEnv = \<lparr>NEXT_PUBLIC_WORDPRESS_URL = None, NEXT_PUBLIC_WORDPRESS_API_URL = None,
     NODE_ENV = Some ''development''\<rparr>"

definition legacyProdEnv :: env where
  "legacyProdEnv = \<lparr>NEXT_PUBLIC_WORDPRESS_URL = Some [],
     NEXT_PUBLIC_WORDPRESS_API_URL = Some ''https://cms.example'',
     NODE_ENV = Some ''production''\<rparr>"

section \<open>HTTP: what a fetch yields\<close>

text \<open>
  A response as the code reads it: the status, the status text, the body text (\<^verbatim>\<open>text\<close> in the source), and
  what parsing the body as JSON yields (\<open>None\<close> when the parse throws). A fetch either
  rejects with an error or resolves to a response.
\<close>

record http_response =
  status :: nat
  statusText :: string
  bodyText :: string
  parsed :: "json option"

datatype fetch_result = Rejected js_error | Resolved http_response

text \<open>\<^verbatim>\<open>response.ok\<close>.\<close>

definition ok :: "http_response \<Rightarrow> bool" where
  "ok r = (200 \<le> status r \<and> status r \<le> 299)"

text \<open>An optional string in a template literal.\<close>

definition template :: "string option \<Rightarrow> string" where
  "template v = (case v of None \<Rightarrow> ''undefined'' | Some u \<Rightarrow> u)"

section \<open>Rooms accessor\<close>

text \<open>
  The inner \<^verbatim>\<open>try\<close> of \<^verbatim>\<open>getRooms\<close>: \<^verbatim>\<open>JSON.parse(text)\<close>, then the read of
  \<^verbatim>\<open>rooms.length\<close> for the log, which throws on \<^verbatim>\<open>null\<close>.
\<close>

definition parseRooms :: "http_response \<Rightarrow> js_error + json" where
  "parseRooms response =
    (case parsed response of
       None \<Rightarrow> Inl (Error ''Unexpected token in JSON'')
     | Some rooms \<Rightarrow>
         (case rooms of
            JNull \<Rightarrow> Inl (Error ''Cannot read properties of null (reading length)'')
          | _ \<Rightarrow> Inr rooms))"

text \<open>The outer \<^verbatim>\<open>try\<close> block of \<^verbatim>\<open>getRooms\<close>.\<close>

definition getRoomsTry :: "string option \<Rightarrow> (string \<Rightarrow> fetch_result) \<Rightarrow> js_error + json" where
  "getRoomsTry WORDPRESS_API_URL fetch =
    (case fetch (template WORDPRESS_API_URL @ ''/wp-json/wp/v2/rooms?per_page=50&_embed=true'') of
       Rejected e \<Rightarrow> Inl e
     | Resolved response \<Rightarrow>
         if \<not> ok response
         then Inl (Error (''Failed to fetch rooms: '' @ numberToString (int (status response))
                          @ '' '' @ statusText response))
         else if bodyText response = [] then Inr (JArr [])
         else (case parseRooms response of
                 Inl parseError \<Rightarrow> Inl (Error ''Invalid JSON response from server'')
               | Inr rooms \<Rightarrow> Inr rooms))"

text \<open>\<^verbatim>\<open>getRooms\<close>: the block above, with the \<^verbatim>\<open>catch\<close> that returns an empty array.\<close>

definition getRooms :: "string option \<Rightarrow> (string \<Rightarrow> fetch_result) \<Rightarrow> js_error + json" where
  "getRooms WORDPRESS_API_URL fetch =
    (case getRoomsTry WORDPRESS_API_URL fetch of
       Inl error \<Rightarrow> Inr (JArr [])
     | Inr rooms \<Rightarrow> Inr rooms)"

text \<open>Sample responses.\<close>

definition notFoundResponse :: http_response where
  "notFoundResponse = \<lparr>status = 404, statusText = ''Not Found'', bodyText = ''<html>'', parsed = None\<rparr>"

definition htmlResponse :: http_response where
  "htmlResponse = \<lparr>status = 200, statusText = ''OK'', bodyText = ''<html>'', parsed = None\<rparr>"

definition emptyResponse :: http_response where
  "emptyResponse = \<lparr>status = 200, statusText = ''OK'', bodyText = [], parsed = None\<rparr>"

definition postsResponse :: http_response where
  "postsResponse = \<lparr>status = 200, statusText = ''OK'', bodyText = ''[1, 2]'',
     parsed = Some (JArr [JNum 1, JNum 2])\<rparr>"

section \<open>Proxy route\<close>

definition ALLOWED_PATHS :: "string list" where
  "ALLOWED_PATHS = [''posts'', ''pages'', ''media'', ''categories'', ''tags'']"

definition allowedParams :: "string list" where
  "allowedParams = [''per_page'', ''page'', ''search'', ''slug'', ''include'', ''_embed'']"

text \<open>
  The query of the inbound request is the list of its decoded name-value pairs, in
  order, as \<^verbatim>\<open>searchParams.entries()\<close> yields them; \<^verbatim>\<open>searchParams.get\<close> is the
  value of the first pair with the name.
\<close>

type_synonym searchParams = "(string \<times> string) list"

definition get :: "searchParams \<Rightarrow> string \<Rightarrow> string option" where
  "get sp name = map_of sp name"

text \<open>
  The loop that fills \<^verbatim>\<open>params\<close>: an assignment to a key the object has replaces
  its value in place, an assignment to a new key adds it last.
\<close>

definition forwardedParams :: "searchParams \<Rightarrow> (string \<times> string) list" where
  "forwardedParams sp =
    fold (\<lambda>(key, value) params.
            if key \<noteq> ''path'' \<and> key \<in> set allowedParams
            then AList.update key value params else params)
         sp []"

text \<open>
  \<^verbatim>\<open>new URLSearchParams(params).toString()\<close>: the form-urlencoded serializer on
  the bytes of each name and value. Letters, digits and \<^verbatim>\<open>*-._\<close> stay, a space
  becomes a plus sign, every other byte is a percent sign and two upper-case hex digits.
\<close>

definition hexDigit :: "nat \<Rightarrow> char" where
  "hexDigit n = ''0123456789ABCDEF'' ! (n mod 16)"

definition formEncodeByte :: "char \<Rightarrow> string" where
  "formEncodeByte c =
    (let n = (of_char c :: nat) in
     if (48 \<le> n \<and> n \<le> 57) \<or> (65 \<le> n \<and> n \<le> 90) \<or> (97 \<le> n \<and> n \<le> 122)
        \<or> c \<in> set ''*-._''
     then [c]
     else if c = CHR '' '' then ''+''
     else [CHR ''%'', hexDigit (n div 16), hexDigit (n mod 16)])"

definition formEncode :: "string \<Rightarrow> string" where
  "formEncode s = concat (map formEncodeByte s)"

definition queryString :: "(string \<times> string) list \<Rightarrow> string" where
  "queryString params = join ''&'' (map (\<lambda>(k, v). formEncode k @ ''='' @ formEncode v) params)"

text \<open>The upstream URL of the \<^verbatim>\<open>try\<close> block.\<close>

definition upstreamUrl :: "string \<Rightarrow> string \<Rightarrow> (string \<times> string) list \<Rightarrow> string" where
  "upstreamUrl WORDPRESS_API_URL path params =
    (let qs = queryString params
     in WORDPRESS_API_URL @ ''/wp-json/wp/v2/'' @ path @ (if qs \<noteq> [] then ''?'' @ qs else []))"

text \<open>
  A \<^verbatim>\<open>NextResponse.json(body, {status})\<close>.
\<close>

record NextResponse =
  res_status :: nat
  res_body :: json

text \<open>
  The \<^verbatim>\<open>try\<close> block after the URL is built: the fetch, the test of
  \<^verbatim>\<open>response.ok\<close>, and \<^verbatim>\<open>response.json()\<close>.
\<close>

definition relay :: "(string \<Rightarrow> fetch_result) \<Rightarrow> string \<Rightarrow> js_error + json" where
  "relay fetch url =
    (case fetch url of
       Rejected e \<Rightarrow> Inl e
     | Resolved response \<Rightarrow>
         if \<not> ok response
         then Inl (Error (''WordPress API request failed with status ''
                          @ numberToString (int (status response)) @ '': '' @ statusText response))
         else (case parsed response of
                 None \<Rightarrow> Inl (Error ''Unexpected token in JSON'')
               | Some data \<Rightarrow> Inr data))"

text \<open>
  \<^verbatim>\<open>GET\<close> of the proxy route. The result is the response to the browser and the
  list of URLs fetched upstream while handling the request.
\<close>

definition GET :: "env \<Rightarrow> (string \<Rightarrow> fetch_result) \<Rightarrow> searchParams \<Rightarrow> NextResponse \<times> string list" where
  "GET e fetch sp =
    (let missing = (\<lparr>res_status = 400,
                     res_body = JObj [(''error'', JStr ''Missing path parameter'')]\<rparr>, []);
         invalid = (\<lparr>res_status = 400,
                     res_body = JObj [(''error'', JStr ''Invalid path parameter'')]\<rparr>, []);
         unconfigured = (\<lparr>res_status = 500,
                     res_body = JObj [(''error'', JStr ''Internal server error''),
                                      (''message'', JStr ''WordPress API URL is not configured''),
                                      (''status'', JNum 500)]\<rparr>, [])
     in case get sp ''path'' of
          None \<Rightarrow> missing
        | Some path \<Rightarrow>
            if path = [] then missing
            else
              (case filter (\<lambda>segment. segment \<noteq> []) (split CHR ''/'' path) of
                 [] \<Rightarrow> invalid
               | basePath # others \<Rightarrow>
                   if basePath = [] \<or> basePath \<notin> set ALLOWED_PATHS then invalid
                   else
                     (let params = forwardedParams sp in
                      case orUndefined (NEXT_PUBLIC_WORDPRESS_URL e)
                             (NEXT_PUBLIC_WORDPRESS_API_URL e) of
                        None \<Rightarrow> unconfigured
                      | Some WORDPRESS_API_URL \<Rightarrow>
                          if WORDPRESS_API_URL = [] then unconfigured
                          else
                            (let url = upstreamUrl WORDPRESS_API_URL path params in
                             case relay fetch url of
                               Inr data \<Rightarrow> (\<lparr>res_status = 200, res_body = data\<rparr>, [url])
                             | Inl (Error message) \<Rightarrow>
                                 (\<lparr>res_status = 500,
                                   res_body = JObj [(''error'', JStr ''Failed to fetch from WordPress API''),
                                                    (''details'', JStr message)]\<rparr>, [url])))))"

text \<open>A sample upstream that answers every URL with the same list of posts.\<close>

definition postsUpstream :: "string \<Rightarrow> fetch_result" where
  "postsUpstream url = Resolved postsResponse"

text \<open>
  \<^verbatim>\<open>new URL(url).searchParams\<close>, which the route applies to the URL of its own
  request and every receiver of a URL applies likewise: the query is the text after the
  first question mark, without the fragment; it is cut at each ampersand, empty pieces
  are skipped, each piece is cut at its first equals sign, and in the name and in the
  value a plus sign is a space and a percent sign with two hex digits is that byte.
\<close>

definition urlQuery :: "string \<Rightarrow> string" where
  "urlQuery url =
    drop 1 (dropWhile (\<lambda>c. c \<noteq> CHR ''?'') (takeWhile (\<lambda>c. c \<noteq> CHR ''#'') url))"

definition hexValue :: "char \<Rightarrow> nat option" where
  "hexValue c =
    (let n = (of_char c :: nat) in
     if 48 \<le> n \<and> n \<le> 57 then Some (n - 48)
     else if 65 \<le> n \<and> n \<le> 70 then Some (n - 55)
     else if 97 \<le> n \<and> n \<le> 102 then Some (n - 87)
     else None)"

definition plusToSpace :: "char \<Rightarrow> char" where
  "plusToSpace c = (if c = CHR ''+'' then CHR '' '' else c)"

fun formDecode :: "string \<Rightarrow> string" where
  "formDecode (c # h1 # h2 # rest) =
    (case (c = CHR ''%'', hexValue h1, hexValue h2) of
       (True, Some a, Some b) \<Rightarrow> char_of (16 * a + b) # formDecode rest
     | _ \<Rightarrow> plusToSpace c # formDecode (h1 # h2 # rest))"
| "formDecode (c # cs) = plusToSpace c # formDecode cs"
| "formDecode [] = []"

definition parsePair :: "string \<Rightarrow> string \<times> string" where
  "parsePair piece =
    (formDecode (takeWhile (\<lambda>c. c \<noteq> CHR ''='') piece),
     formDecode (drop 1 (dropWhile (\<lambda>c. c \<noteq> CHR ''='') piece)))"

definition urlSearchParams :: "string \<Rightarrow> searchParams" where
  "urlSearchParams url =
    map parsePair (filter (\<lambda>piece. piece \<noteq> []) (split CHR ''&'' (urlQuery url)))"

text \<open>
  A request to the route whose path parameter, once decoded, holds a question mark; and
  an environment with the primary variable set.
\<close>

definition smuggleRequestUrl :: string where
  "smuggleRequestUrl =
     ''https://hotel.example/api/wp?path=posts/%3Fcallback%3Dx&callback=x&per_page=5''"

definition primaryEnv :: env where
  "primaryEnv = \<lparr>NEXT_PUBLIC_WORDPRESS_URL = Some ''https://cms.example'',
     NEXT_PUBLIC_WORDPRESS_API_URL = None, NODE_ENV = Some ''production''\<rparr>"

section \<open>Check-out after a check-in pick\<close>

text \<open>
  C1, as stated, fails: picking the check-in instant 172800000 on a form whose
  check-out is that same instant leaves check-out where it is. After the pick check-out
  is not strictly after check-in, it is not check-in plus one day, the check-out
  calendar does not disable that day, and validation reports no date error.
\<close>

theorem pickCheckIn_same_instant_counterexample:
  "checkIn (pickCheckIn 172800000 dayOneForm) = Some 172800000
   \<and> checkOut (pickCheckIn 172800000 dayOneForm) = Some 172800000
   \<and> \<not> (172800000 < (172800000 :: date))
   \<and> checkOut (pickCheckIn 172800000 dayOneForm) \<noteq> Some (addDays 172800000 1)
   \<and> \<not> checkOutDisabled 0 (pickCheckIn 172800000 dayOneForm) 172800000
   \<and> snd (validateForm (pickCheckIn 172800000 dayOneForm))"
  by (simp add: pickCheckIn_def onSelectCheckIn_def checkOutEffect_def dayOneForm_def
      isBefore_def addDays_def checkOutDisabled_def isSameDay_def validateForm_def
      noErrors_def)

text \<open>
  C1, amended: a check-in pick sets check-in; when the previous check-out is strictly
  before the picked check-in, check-out becomes check-in plus one day, which is strictly
  after check-in; otherwise check-out is unchanged. So after a check-in pick check-out
  is never before check-in.
\<close>

theorem pickCheckIn_checkOut:
  "checkIn (pickCheckIn d fd) = Some d
   \<and> checkOut (pickCheckIn d fd) =
       (case checkOut fd of
          None \<Rightarrow> None
        | Some co \<Rightarrow> if co < d then Some (addDays d 1) else Some co)
   \<and> d < addDays d 1
   \<and> (\<forall>co'. checkOut (pickCheckIn d fd) = Some co' \<longrightarrow> d \<le> co')"
  by (auto simp: pickCheckIn_def onSelectCheckIn_def checkOutEffect_def isBefore_def
      addDays_def split: option.splits)

theorem pickCheckIn_checkOut_witness:
  "checkOut (pickCheckIn 259200000 dayOneForm) = Some 345600000
   \<and> (259200000 :: date) \<le> 345600000"
  using pickCheckIn_checkOut [of 259200000 dayOneForm]
  by (simp add: dayOneForm_def addDays_def)

section \<open>Gallery normalization\<close>

text \<open>
  C2, as stated, fails: a gallery that is a single object without a \<^verbatim>\<open>url\<close> key
  is normalized to the empty list, not to the one-element list holding the object; and
  a room without custom fields comes back without any gallery.
\<close>

theorem normalizeRoom_object_without_url_counterexample:
  "acf (normalizeRoom (roomWithGallery (Some (JObj [(''id'', JNum 5)])))) =
     Some \<lparr>gallery = Some (JArr []), acf_rest = [(''size'', JStr ''40 sqm'')]\<rparr>
   \<and> JArr [] \<noteq> JArr [JObj [(''id'', JNum 5)]]
   \<and> acf (normalizeRoom bareRoom) = None"
  by (simp add: normalizeRoom_def roomWithGallery_def bareRoom_def)

text \<open>
  C2, amended: a room without custom fields is returned unchanged. For a room with
  custom fields the normalized gallery is a list, and only the gallery changes: an
  absent gallery yields the empty list, a list is returned unchanged, a single object
  yields the one-element list holding it when it has a \<^verbatim>\<open>url\<close> key and the empty
  list when it has none, and every other value yields the empty list.
\<close>

theorem normalizeRoom_gallery:
  "(acf room = None \<longrightarrow> normalizeRoom room = room)
   \<and> (\<forall>a. acf room = Some a \<longrightarrow>
        (\<exists>items. normalizeRoom room = room\<lparr>acf := Some (a\<lparr>gallery := Some (JArr items)\<rparr>)\<rparr>
          \<and> (gallery a = None \<longrightarrow> items = [])
          \<and> (\<forall>xs. gallery a = Some (JArr xs) \<longrightarrow> items = xs)
          \<and> (\<forall>kvs. gallery a = Some (JObj kvs) \<longrightarrow>
                items = (if ''url'' \<in> fst ` set kvs then [JObj kvs] else []))
          \<and> (gallery a = Some JNull \<longrightarrow> items = [])
          \<and> (\<forall>b. gallery a = Some (JBool b) \<longrightarrow> items = [])
          \<and> (\<forall>n. gallery a = Some (JNum n) \<longrightarrow> items = [])
          \<and> (\<forall>s. gallery a = Some (JStr s) \<longrightarrow> items = [])))"
  by (auto simp: normalizeRoom_def Let_def split: option.splits json.splits)

theorem normalizeRoom_gallery_witness:
  "normalizeRoom (roomWithGallery (Some (JObj [(''url'', JStr ''a.jpg'')]))) =
     roomWithGallery (Some (JArr [JObj [(''url'', JStr ''a.jpg'')]]))
   \<and> normalizeRoom (roomWithGallery (Some (JArr [JNum 7, JNum 9]))) =
     roomWithGallery (Some (JArr [JNum 7, JNum 9]))
   \<and> normalizeRoom (roomWithGallery None) = roomWithGallery (Some (JArr []))
   \<and> normalizeRoom bareRoom = bareRoom"
  using normalizeRoom_gallery [of "roomWithGallery (Some (JObj [(''url'', JStr ''a.jpg'')]))"]
    normalizeRoom_gallery [of "roomWithGallery (Some (JArr [JNum 7, JNum 9]))"]
    normalizeRoom_gallery [of "roomWithGallery None"]
    normalizeRoom_gallery [of bareRoom]
  by (auto simp: roomWithGallery_def bareRoom_def)

section \<open>Image URL resolution\<close>

lemma orElse_nonempty: "k \<noteq> [] \<Longrightarrow> orElse v k \<noteq> []"
  by (simp add: orElse_def split: option.splits)

lemma orElse_None: "orElse None k = k"
  by (simp add: orElse_def)

lemma firstAvailable_Cons: "firstAvailable (c # cs) d = orElse c (firstAvailable cs d)"
  by (cases c) (simp_all add: orElse_def)

text \<open>
  C7: the resolved image URL is the first present, non-empty candidate in the order
  better featured image, large, medium-large, medium, thumbnail, raw source URL of the
  embedded media, and the default path when there is none; it is never empty, and a
  room none of whose candidates is available gets the default path.
\<close>

theorem getImageUrl_preference:
  "getImageUrl room = firstAvailable (imageCandidates room) defaultImage
   \<and> getImageUrl room \<noteq> []
   \<and> (list_all (\<lambda>c. c = None \<or> c = Some []) (imageCandidates room)
        \<longrightarrow> getImageUrl room = defaultImage)"
proof -
  have eq: "getImageUrl room = firstAvailable (imageCandidates room) defaultImage"
    by (simp add: getImageUrl_def imageCandidates_def firstAvailable_Cons Let_def
        optSourceUrl_def orElse_None split: option.splits)
  have d: "defaultImage \<noteq> []" by (simp add: defaultImage_def)
  have ne: "firstAvailable cs defaultImage \<noteq> []" for cs
    by (induction cs defaultImage rule: firstAvailable.induct) (simp_all add: d)
  have none: "list_all (\<lambda>c. c = None \<or> c = Some []) cs \<Longrightarrow> firstAvailable cs dflt = dflt" for cs dflt
    by (induction cs dflt rule: firstAvailable.induct) simp_all
  show ?thesis using eq ne none by simp
qed

theorem getImageUrl_preference_witness:
  "getImageUrl mediumOnlyRoom = ''https://cms.example/medium.jpg''
   \<and> getImageUrl bareRoom = ''/images/rooms/default-room.png''"
  using getImageUrl_preference [of mediumOnlyRoom] getImageUrl_preference [of bareRoom]
  by (simp add: imageCandidates_def featuredMedia_def mediumOnlyRoom_def bareRoom_def
      optSourceUrl_def defaultImage_def)


section \<open>Display name\<close>

lemma split_not_Nil: "split c s \<noteq> []"
  by (induction s) (auto split: list.splits)

lemma split_single_nonempty: "s \<noteq> [] \<Longrightarrow> split c s = [w] \<Longrightarrow> w \<noteq> []"
  by (cases s) (auto simp: split_not_Nil split: if_splits list.splits)

lemma join_two_nonempty: "sep \<noteq> [] \<Longrightarrow> join sep (w # v # ws) \<noteq> []"
  by simp

lemma capitalize_Nil_iff: "capitalize w = [] \<longleftrightarrow> w = []"
  by (simp add: capitalize_def split: list.splits)

lemma slug_title_nonempty:
  assumes "s \<noteq> []"
  shows "join '' '' (map capitalize (split c s)) \<noteq> []"
proof (cases "split c s")
  case Nil
  then show ?thesis by (simp add: split_not_Nil)
next
  case (Cons w ws)
  show ?thesis
  proof (cases ws)
    case Nil
    with Cons assms have "w \<noteq> []" by (simp add: split_single_nonempty)
    with Cons Nil show ?thesis by (simp add: capitalize_Nil_iff)
  next
    case (Cons v vs)
    with \<open>split c s = w # ws\<close> show ?thesis by simp
  qed
qed

text \<open>
  C8: the room name is the first non-empty of the title, the display-name field and
  the title-cased slug (split on hyphen, each segment capitalized, joined with spaces),
  else the label made of "Room" and the id. A room with none of the three sources gets
  that label; a room with only a non-empty slug gets the title-cased slug; and with a
  non-empty slug the name is never empty.
\<close>

theorem roomName_fallback:
  "roomName room =
     firstAvailable
       [map_option rendered (title room), featured_title room,
        Some (if slug room \<noteq> []
              then join '' '' (map capitalize (split CHR ''-'' (slug room))) else [])]
       (''Room '' @ numberToString (room_id room))
   \<and> ((title room = None \<or> map_option rendered (title room) = Some [])
        \<and> (featured_title room = None \<or> featured_title room = Some [])
        \<and> slug room = []
        \<longrightarrow> roomName room = ''Room '' @ numberToString (room_id room))
   \<and> ((title room = None \<or> map_option rendered (title room) = Some [])
        \<and> (featured_title room = None \<or> featured_title room = Some [])
        \<and> slug room \<noteq> []
        \<longrightarrow> roomName room = join '' '' (map capitalize (split CHR ''-'' (slug room))))
   \<and> (slug room \<noteq> [] \<longrightarrow> roomName room \<noteq> [])"
proof -
  have eq: "roomName room =
     firstAvailable
       [map_option rendered (title room), featured_title room,
        Some (if slug room \<noteq> []
              then join '' '' (map capitalize (split CHR ''-'' (slug room))) else [])]
       (''Room '' @ numberToString (room_id room))"
    by (simp add: roomName_def firstAvailable_Cons)
  have ne: "roomName room \<noteq> []"
    by (simp add: roomName_def orElse_nonempty)
  have st: "slug room \<noteq> [] \<Longrightarrow>
      join '' '' (map capitalize (split CHR ''-'' (slug room))) \<noteq> []"
    by (rule slug_title_nonempty)
  have none: "(title room = None \<or> map_option rendered (title room) = Some [])
        \<and> (featured_title room = None \<or> featured_title room = Some [])
        \<and> slug room = []
        \<longrightarrow> roomName room = ''Room '' @ numberToString (room_id room)"
    by (auto simp: roomName_def orElse_def)
  have sl: "(title room = None \<or> map_option rendered (title room) = Some [])
        \<and> (featured_title room = None \<or> featured_title room = Some [])
        \<and> slug room \<noteq> []
        \<longrightarrow> roomName room = join '' '' (map capitalize (split CHR ''-'' (slug room)))"
    using st by (auto simp: roomName_def orElse_def)
  show ?thesis using eq ne none sl by blast
qed

theorem roomName_fallback_witness:
  "roomName namelessRoom = ''Room 17''
   \<and> roomName slugRoom = ''Deluxe Sea View''"
proof -
  have n: "''Room '' @ numberToString (room_id namelessRoom) = ''Room 17''"
    by code_simp
  have s: "join '' '' (map capitalize (split CHR ''-'' (slug slugRoom))) = ''Deluxe Sea View''"
    by code_simp
  show ?thesis
    using roomName_fallback [of namelessRoom] roomName_fallback [of slugRoom] n s
    by (simp add: namelessRoom_def slugRoom_def)
qed

section \<open>Rate\<close>

lemma startsWith_K_Cons: "startsWith (CHR ''K'' # s) ''K''"
  by (simp add: startsWith_def)

lemma startsWith_K_nonempty: "startsWith s ''K'' \<Longrightarrow> s \<noteq> []"
  by (auto simp: startsWith_def)

lemma rate_startsWith: "startsWith (rate room) ''K''"
  by (simp add: rate_def startsWith_K_Cons)

lemma rate_of_prefixed:
  "room_rates room = Some s \<Longrightarrow> startsWith s ''K'' \<Longrightarrow> rate room = s"
  by (frule startsWith_K_nonempty) (simp add: rate_def rateValue_def orElse_def)

text \<open>
  C9: a rate string that already starts with the currency prefix is the resolved rate,
  unmodified; resolving the rate of a room whose rate string is an already resolved rate
  gives that rate again (idempotence); and every resolved rate starts with the prefix.
\<close>

theorem rate_no_double_prefix:
  "(\<forall>s. room_rates room = Some s \<and> startsWith s ''K'' \<longrightarrow> rate room = s)
   \<and> rate (room\<lparr>room_rates := Some (rate room)\<rparr>) = rate room
   \<and> startsWith (rate room) ''K''"
proof -
  have "rate (room\<lparr>room_rates := Some (rate room)\<rparr>) = rate room"
    by (rule rate_of_prefixed) (simp_all add: rate_startsWith)
  then show ?thesis by (simp add: rate_startsWith rate_of_prefixed)
qed

theorem rate_no_double_prefix_witness:
  "rate slugRoom = ''K350''
   \<and> rate (slugRoom\<lparr>room_rates := Some (rate slugRoom)\<rparr>) = ''K350''
   \<and> rate namelessRoom = ''K0''
   \<and> rate (namelessRoom\<lparr>room_rates := Some ''120''\<rparr>) = ''K120''"
  using rate_no_double_prefix [of slugRoom]
  by (simp add: slugRoom_def namelessRoom_def startsWith_def rate_def rateValue_def orElse_def)

section \<open>Configuration resolution\<close>

text \<open>
  C3, as stated, fails: with both variables unset and the mode "development", evaluating
  the top of the api module throws.
\<close>

theorem apiModule_unset_counterexample:
  "apiModule unsetDevEnv = Inl (Error ''WordPress API URL is not defined. Please set NEXT_PUBLIC_WORDPRESS_URL or NEXT_PUBLIC_WORDPRESS_API_URL in your environment variables.'')"
  by (simp add: apiModule_def unsetDevEnv_def orUndefined_def)

text \<open>
  C3, amended: both modules try the primary variable, then the legacy variable. The
  wordpress module then falls back to the empty string and raises no error, whatever the
  environment and the mode. The api module raises an error exactly when neither variable
  holds a non-empty value and the mode is not production; when it does not raise, its
  base is empty (in production, with nothing set) or the resolved URL followed by the
  REST prefix.
\<close>

theorem module_resolution:
  "(\<exists>logs. wordpressModule e =
       Inr (firstAvailable [NEXT_PUBLIC_WORDPRESS_URL e, NEXT_PUBLIC_WORDPRESS_API_URL e] [], logs))
   \<and> ((\<exists>err. apiModule e = Inl err) \<longleftrightarrow>
        firstAvailable [NEXT_PUBLIC_WORDPRESS_URL e, NEXT_PUBLIC_WORDPRESS_API_URL e] [] = []
        \<and> NODE_ENV e \<noteq> Some ''production'')
   \<and> (\<forall>u base logs. apiModule e = Inr (u, base, logs) \<longrightarrow>
        (if firstAvailable [NEXT_PUBLIC_WORDPRESS_URL e, NEXT_PUBLIC_WORDPRESS_API_URL e] [] = []
         then base = [] \<and> NODE_ENV e = Some ''production''
         else u = Some (firstAvailable [NEXT_PUBLIC_WORDPRESS_URL e, NEXT_PUBLIC_WORDPRESS_API_URL e] [])
              \<and> base = firstAvailable [NEXT_PUBLIC_WORDPRESS_URL e, NEXT_PUBLIC_WORDPRESS_API_URL e] []
                       @ ''/wp-json/wp/v2''))"
proof -
  have w: "\<exists>logs. wordpressModule e =
       Inr (firstAvailable [NEXT_PUBLIC_WORDPRESS_URL e, NEXT_PUBLIC_WORDPRESS_API_URL e] [], logs)"
    by (simp add: wordpressModule_def Let_def orUndefined_def orElse_def split: option.splits)
  have a: "(\<exists>err. apiModule e = Inl err) \<longleftrightarrow>
        firstAvailable [NEXT_PUBLIC_WORDPRESS_URL e, NEXT_PUBLIC_WORDPRESS_API_URL e] [] = []
        \<and> NODE_ENV e \<noteq> Some ''production''"
    by (auto simp: apiModule_def Let_def orUndefined_def split: option.splits if_splits)
  have b: "\<forall>u base logs. apiModule e = Inr (u, base, logs) \<longrightarrow>
        (if firstAvailable [NEXT_PUBLIC_WORDPRESS_URL e, NEXT_PUBLIC_WORDPRESS_API_URL e] [] = []
         then base = [] \<and> NODE_ENV e = Some ''production''
         else u = Some (firstAvailable [NEXT_PUBLIC_WORDPRESS_URL e, NEXT_PUBLIC_WORDPRESS_API_URL e] [])
              \<and> base = firstAvailable [NEXT_PUBLIC_WORDPRESS_URL e, NEXT_PUBLIC_WORDPRESS_API_URL e] []
                       @ ''/wp-json/wp/v2'')"
    by (auto simp: apiModule_def Let_def orUndefined_def split: option.splits if_splits)
  show ?thesis using w a b by blast
qed

theorem module_resolution_witness:
  "wordpressModule legacyProdEnv = Inr (''https://cms.example'', [])
   \<and> apiModule legacyProdEnv = Inr (Some ''https://cms.example'', ''https://cms.example/wp-json/wp/v2'', [])
   \<and> (\<exists>err. apiModule unsetDevEnv = Inl err)"
  using module_resolution [of legacyProdEnv] module_resolution [of unsetDevEnv]
  by (simp add: legacyProdEnv_def unsetDevEnv_def wordpressModule_def apiModule_def
      orUndefined_def orElse_def)

section \<open>Rooms listing degrades to empty\<close>

text \<open>
  C6: the rooms accessor always returns a value and never an error. It returns the empty
  list when the fetch rejects (network error), when the response is not 2xx, when the
  body is empty, and when the body does not parse (or parses to null).
\<close>

theorem getRooms_degrades:
  "(\<exists>rooms. getRooms url fetch = Inr rooms)
   \<and> (\<forall>e. fetch (template url @ ''/wp-json/wp/v2/rooms?per_page=50&_embed=true'') = Rejected e
        \<longrightarrow> getRooms url fetch = Inr (JArr []))
   \<and> (\<forall>r. fetch (template url @ ''/wp-json/wp/v2/rooms?per_page=50&_embed=true'') = Resolved r
        \<longrightarrow> (\<not> ok r \<or> bodyText r = [] \<or> parsed r = None \<or> parsed r = Some JNull)
        \<longrightarrow> getRooms url fetch = Inr (JArr []))"
  by (auto simp: getRooms_def getRoomsTry_def parseRooms_def
      split: fetch_result.splits sum.splits option.splits json.splits)

theorem getRooms_degrades_witness:
  "getRooms (Some ''https://cms.example'') (\<lambda>u. Rejected (Error ''fetch failed'')) = Inr (JArr [])
   \<and> getRooms (Some ''https://cms.example'') (\<lambda>u. Resolved notFoundResponse) = Inr (JArr [])
   \<and> getRooms (Some ''https://cms.example'') (\<lambda>u. Resolved htmlResponse) = Inr (JArr [])
   \<and> getRooms (Some ''https://cms.example'') (\<lambda>u. Resolved emptyResponse) = Inr (JArr [])
   \<and> getRooms (Some ''https://cms.example'') postsUpstream = Inr (JArr [JNum 1, JNum 2])"
  using getRooms_degrades [of "Some ''https://cms.example''" "\<lambda>u. Rejected (Error ''fetch failed'')"]
    getRooms_degrades [of "Some ''https://cms.example''" "\<lambda>u. Resolved notFoundResponse"]
    getRooms_degrades [of "Some ''https://cms.example''" "\<lambda>u. Resolved htmlResponse"]
    getRooms_degrades [of "Some ''https://cms.example''" "\<lambda>u. Resolved emptyResponse"]
  by (simp add: notFoundResponse_def htmlResponse_def emptyResponse_def ok_def
      getRooms_def getRoomsTry_def parseRooms_def postsUpstream_def postsResponse_def)

section \<open>Proxy route: path validation\<close>

text \<open>
  C5, as stated, fails: a request whose path parameter is present and empty has no
  non-empty segment, and it receives the message for a missing parameter, not the one
  for an invalid path.
\<close>

theorem GET_empty_path_counterexample:
  "get [(''path'', [])] ''path'' = Some []
   \<and> filter (\<lambda>segment. segment \<noteq> []) (split CHR ''/'' []) = []
   \<and> GET legacyProdEnv postsUpstream [(''path'', [])] =
       (\<lparr>res_status = 400, res_body = JObj [(''error'', JStr ''Missing path parameter'')]\<rparr>, [])
   \<and> JStr ''Missing path parameter'' \<noteq> JStr ''Invalid path parameter''"
  by (simp add: GET_def get_def)

text \<open>
  C5, amended: a request with no path parameter, or with an empty one, receives status
  400 with the error "Missing path parameter"; a request with a non-empty path that has
  no non-empty segment, or whose first non-empty segment is not in the allow-list,
  receives status 400 with the error "Invalid path parameter"; in both cases nothing is
  fetched upstream.
\<close>

theorem GET_path_validation:
  "(get sp ''path'' = None \<or> get sp ''path'' = Some []
      \<longrightarrow> GET e fetch sp =
          (\<lparr>res_status = 400, res_body = JObj [(''error'', JStr ''Missing path parameter'')]\<rparr>, []))
   \<and> (\<forall>path. get sp ''path'' = Some path \<and> path \<noteq> []
         \<and> (case filter (\<lambda>segment. segment \<noteq> []) (split CHR ''/'' path) of
               [] \<Rightarrow> True
             | basePath # others \<Rightarrow> basePath \<notin> set ALLOWED_PATHS)
      \<longrightarrow> GET e fetch sp =
          (\<lparr>res_status = 400, res_body = JObj [(''error'', JStr ''Invalid path parameter'')]\<rparr>, []))"
  by (auto simp: GET_def Let_def split: list.splits)

theorem GET_path_validation_witness:
  "GET legacyProdEnv postsUpstream [(''per_page'', ''5'')] =
       (\<lparr>res_status = 400, res_body = JObj [(''error'', JStr ''Missing path parameter'')]\<rparr>, [])
   \<and> GET legacyProdEnv postsUpstream [(''path'', ''unknownType'')] =
       (\<lparr>res_status = 400, res_body = JObj [(''error'', JStr ''Invalid path parameter'')]\<rparr>, [])
   \<and> GET legacyProdEnv postsUpstream [(''path'', ''//'')] =
       (\<lparr>res_status = 400, res_body = JObj [(''error'', JStr ''Invalid path parameter'')]\<rparr>, [])"
  using GET_path_validation [of "[(''per_page'', ''5'')]" legacyProdEnv postsUpstream]
    GET_path_validation [of "[(''path'', ''unknownType'')]" legacyProdEnv postsUpstream]
    GET_path_validation [of "[(''path'', ''//'')]" legacyProdEnv postsUpstream]
  by (simp add: get_def ALLOWED_PATHS_def)

section \<open>Proxy route: what is forwarded\<close>

lemma GET_forwarded:
  assumes "get sp ''path'' = Some path"
    and "filter (\<lambda>segment. segment \<noteq> []) (split CHR ''/'' path) = basePath # others"
    and "basePath \<in> set ALLOWED_PATHS"
    and "orUndefined (NEXT_PUBLIC_WORDPRESS_URL e) (NEXT_PUBLIC_WORDPRESS_API_URL e) = Some base"
    and "base \<noteq> []"
  shows "snd (GET e fetch sp) = [upstreamUrl base path (forwardedParams sp)]"
proof -
  have p: "path \<noteq> []" using assms(2) by auto
  have "basePath \<in> set (filter (\<lambda>segment. segment \<noteq> []) (split CHR ''/'' path))"
    by (simp add: assms(2))
  then have b: "basePath \<noteq> []" by simp
  have g: "GET e fetch sp =
      (case relay fetch (upstreamUrl base path (forwardedParams sp)) of
         Inr data \<Rightarrow> (\<lparr>res_status = 200, res_body = data\<rparr>,
                       [upstreamUrl base path (forwardedParams sp)])
       | Inl (Error message) \<Rightarrow>
           (\<lparr>res_status = 500,
             res_body = JObj [(''error'', JStr ''Failed to fetch from WordPress API''),
                              (''details'', JStr message)]\<rparr>,
            [upstreamUrl base path (forwardedParams sp)]))"
    unfolding GET_def Let_def
    by (simp only: assms p b option.case list.case if_False if_True simp_thms)
  show ?thesis
    unfolding g
    by (cases "relay fetch (upstreamUrl base path (forwardedParams sp))")
      (simp_all split: js_error.splits)
qed

text \<open>
  C10: when the first non-empty segment of the path is in the allow-list and a base URL
  is configured, exactly one upstream request is made, and its URL carries the whole path
  parameter verbatim after the REST prefix, whatever the remaining segments are.
\<close>

theorem GET_first_segment_only:
  assumes "get sp ''path'' = Some path"
    and "filter (\<lambda>segment. segment \<noteq> []) (split CHR ''/'' path) = basePath # others"
    and "basePath \<in> set ALLOWED_PATHS"
    and "orUndefined (NEXT_PUBLIC_WORDPRESS_URL e) (NEXT_PUBLIC_WORDPRESS_API_URL e) = Some base"
    and "base \<noteq> []"
  shows "snd (GET e fetch sp) =
      [base @ ''/wp-json/wp/v2/'' @ path
        @ (if queryString (forwardedParams sp) \<noteq> []
           then ''?'' @ queryString (forwardedParams sp) else [])]"
  using GET_forwarded [OF assms] by (simp add: upstreamUrl_def Let_def)

theorem GET_first_segment_only_witness:
  "snd (GET legacyProdEnv postsUpstream [(''path'', ''posts/../users?context=edit'')]) =
     [''https://cms.example/wp-json/wp/v2/posts/../users?context=edit'']
   \<and> ''..'' \<notin> set ALLOWED_PATHS
   \<and> ''users?context=edit'' \<notin> set ALLOWED_PATHS"
proof -
  have s: "filter (\<lambda>segment. segment \<noteq> []) (split CHR ''/'' ''posts/../users?context=edit'')
      = ''posts'' # [''..'', ''users?context=edit'']"
    by simp
  have g: "get [(''path'', ''posts/../users?context=edit'')] ''path''
      = Some ''posts/../users?context=edit''"
    by (simp add: get_def)
  have a: "''posts'' \<in> set ALLOWED_PATHS"
    and n: "''..'' \<notin> set ALLOWED_PATHS" "''users?context=edit'' \<notin> set ALLOWED_PATHS"
    by (simp_all add: ALLOWED_PATHS_def)
  have b: "orUndefined (NEXT_PUBLIC_WORDPRESS_URL legacyProdEnv)
      (NEXT_PUBLIC_WORDPRESS_API_URL legacyProdEnv) = Some ''https://cms.example''"
    by (simp add: legacyProdEnv_def orUndefined_def)
  have q: "queryString (forwardedParams [(''path'', ''posts/../users?context=edit'')]) = []"
    by (simp add: forwardedParams_def queryString_def)
  show ?thesis
    using GET_first_segment_only [OF g s a b, of postsUpstream] n by (simp add: q)
qed

section \<open>Proxy route: query parameters\<close>

lemma path_not_allowed: "''path'' \<notin> set allowedParams"
  by (simp add: allowedParams_def)

lemma fold_keep_map_of:
  "map_of (fold (\<lambda>(key, value) params.
            if key \<noteq> ''path'' \<and> key \<in> set allowedParams
            then AList.update key value params else params) sp acc) k =
     (if k \<in> set allowedParams
      then (case map_of (rev sp) k of Some v \<Rightarrow> Some v | None \<Rightarrow> map_of acc k)
      else map_of acc k)"
proof (induction sp arbitrary: acc)
  case Nil
  then show ?case by simp
next
  case (Cons x xs)
  obtain key val where x: "x = (key, val)" by (cases x)
  show ?case
    using path_not_allowed
    by (auto simp: Cons.IH x AList.update_conv' map_add_def split: option.splits)
qed

lemma fold_keep_distinct:
  "distinct (map fst acc) \<Longrightarrow>
   distinct (map fst (fold (\<lambda>(key, value) params.
            if key \<noteq> ''path'' \<and> key \<in> set allowedParams
            then AList.update key value params else params) sp acc))"
proof (induction sp arbitrary: acc)
  case Nil
  then show ?case by simp
next
  case (Cons x xs)
  obtain key val where x: "x = (key, val)" by (cases x)
  show ?case
    using Cons.prems by (auto simp: x intro!: Cons.IH AList.distinct_update)
qed

lemma forwardedParams_map_of:
  "map_of (forwardedParams sp) k =
     (if k \<in> set allowedParams then map_of (rev sp) k else None)"
  by (simp add: forwardedParams_def fold_keep_map_of split: option.splits)

lemma forwardedParams_distinct: "distinct (map fst (forwardedParams sp))"
  by (simp add: forwardedParams_def fold_keep_distinct)

text \<open>
  The lemmas above are about the object \<^verbatim>\<open>params\<close> the filter loop builds: it
  holds the allow-listed names only, each once, a repeated name with the value of its
  last occurrence.
\<close>

text \<open>
  C4 (every parameter outside the allowed set is absent from the upstream request, and
  every allow-listed inbound parameter is forwarded with its value) does not hold of the
  route, although its filter is written to that end ("only allow specific query
  parameters to prevent injection"). The path parameter is put into the upstream URL as
  it is, and only its first segment is checked. For the request below the loop drops the
  inbound \<^verbatim>\<open>callback\<close> and keeps \<^verbatim>\<open>per_page\<close>, and still the URL fetched upstream,
  whatever the upstream answers, carries the parameter \<^verbatim>\<open>callback\<close>, which is not
  allowed, and carries no parameter \<^verbatim>\<open>per_page\<close>.
\<close>

theorem GET_path_carries_parameter:
  "urlSearchParams smuggleRequestUrl =
     [(''path'', ''posts/?callback=x''), (''callback'', ''x''), (''per_page'', ''5'')]
   \<and> ''callback'' \<notin> set allowedParams
   \<and> ''per_page'' \<in> set allowedParams
   \<and> forwardedParams (urlSearchParams smuggleRequestUrl) = [(''per_page'', ''5'')]
   \<and> snd (GET primaryEnv fetch (urlSearchParams smuggleRequestUrl)) =
       [''https://cms.example/wp-json/wp/v2/posts/?callback=x?per_page=5'']
   \<and> urlSearchParams ''https://cms.example/wp-json/wp/v2/posts/?callback=x?per_page=5'' =
       [(''callback'', ''x?per_page=5'')]"
proof -
  have sp: "urlSearchParams smuggleRequestUrl =
      [(''path'', ''posts/?callback=x''), (''callback'', ''x''), (''per_page'', ''5'')]"
    by code_simp
  have f: "forwardedParams
      [(''path'', ''posts/?callback=x''), (''callback'', ''x''), (''per_page'', ''5'')]
      = [(''per_page'', ''5'')]"
    by (simp add: forwardedParams_def allowedParams_def)
  have q: "queryString [(''per_page'', ''5'')] = ''per_page=5''"
    by code_simp
  have s: "filter (\<lambda>segment. segment \<noteq> []) (split CHR ''/'' ''posts/?callback=x'')
      = ''posts'' # [''?callback=x'']"
    by simp
  have g: "get [(''path'', ''posts/?callback=x''), (''callback'', ''x''), (''per_page'', ''5'')]
      ''path'' = Some ''posts/?callback=x''"
    by (simp add: get_def)
  have a: "''posts'' \<in> set ALLOWED_PATHS"
    by (simp add: ALLOWED_PATHS_def)
  have b: "orUndefined (NEXT_PUBLIC_WORDPRESS_URL primaryEnv)
      (NEXT_PUBLIC_WORDPRESS_API_URL primaryEnv) = Some ''https://cms.example''"
    by (simp add: primaryEnv_def orUndefined_def)
  have u: "snd (GET primaryEnv fetch
      [(''path'', ''posts/?callback=x''), (''callback'', ''x''), (''per_page'', ''5'')]) =
      [''https://cms.example/wp-json/wp/v2/posts/?callback=x?per_page=5'']"
    using GET_forwarded [OF g s a b, of fetch] by (simp add: f q upstreamUrl_def)
  have r: "urlSearchParams ''https://cms.example/wp-json/wp/v2/posts/?callback=x?per_page=5'' =
      [(''callback'', ''x?per_page=5'')]"
    by code_simp
  show ?thesis using f u r by (simp add: sp allowedParams_def)
qed

end
